theory Spec2Isabelle
  imports Main
begin

section \<open>The two variant pairs\<close>

text \<open>
  \<^verbatim>\<open>option.ts\<close> declares \<^verbatim>\<open>type Option<T> = Some<T> | None\<close> with the classes
  \<^verbatim>\<open>SomeImpl\<close> (field \<^verbatim>\<open>val\<close>) and \<^verbatim>\<open>NoneImpl\<close> (no field, one frozen instance);
  \<^verbatim>\<open>result.ts\<close> declares \<^verbatim>\<open>type Result<T, E> = Ok<T> | Err<E>\<close> with the classes
  \<^verbatim>\<open>OkImpl\<close> (field \<^verbatim>\<open>val\<close>) and \<^verbatim>\<open>ErrImpl\<close> (fields \<^verbatim>\<open>val\<close> and the private
  \<^verbatim>\<open>_stack\<close>). The datatypes keep the class names as constructors. Equality of two
  values of the model is equality of their fields; object identity is not modelled.
\<close>

datatype 'a Option = NoneImpl | SomeImpl 'a

datatype ('a, 'e) Result = ErrImpl 'e string | OkImpl 'a

text \<open>The discriminant fields \<^verbatim>\<open>some\<close>, \<^verbatim>\<open>none\<close>, \<^verbatim>\<open>ok\<close>, \<^verbatim>\<open>err\<close>.\<close>

fun some :: "'a Option \<Rightarrow> bool" where
  "some NoneImpl = False"
| "some (SomeImpl v) = True"

fun none :: "'a Option \<Rightarrow> bool" where
  "none NoneImpl = True"
| "none (SomeImpl v) = False"

fun ok :: "('a, 'e) Result \<Rightarrow> bool" where
  "ok (ErrImpl e st) = False"
| "ok (OkImpl v) = True"

fun err :: "('a, 'e) Result \<Rightarrow> bool" where
  "err (ErrImpl e st) = True"
| "err (OkImpl v) = False"

subsection \<open>Strings of the host language\<close>

definition newline :: char where
  "newline = CHR 0x0A"

text \<open>\<^verbatim>\<open>s.split(sep)\<close> for a one-character separator: the empty string gives one empty piece.\<close>

fun split :: "char \<Rightarrow> string \<Rightarrow> string list" where
  "split sep [] = [[]]"
| "split sep (c # cs) =
     (if c = sep then [] # split sep cs
      else (case split sep cs of
              [] \<Rightarrow> [[c]]
            | piece # pieces \<Rightarrow> (c # piece) # pieces))"

text \<open>\<^verbatim>\<open>lines.join(sep)\<close>.\<close>

fun join :: "string \<Rightarrow> string list \<Rightarrow> string" where
  "join sep [] = []"
| "join sep [piece] = piece"
| "join sep (piece # pieces) = piece @ sep @ join sep pieces"

text \<open>\<^verbatim>\<open>s.includes(pat)\<close>: \<^verbatim>\<open>pat\<close> occurs in \<^verbatim>\<open>s\<close> as a contiguous substring.\<close>

fun includes_str :: "string \<Rightarrow> string \<Rightarrow> bool" where
  "includes_str [] pat = (pat = [])"
| "includes_str (c # cs) pat = (take (length pat) (c # cs) = pat \<or> includes_str cs pat)"

subsection \<open>Construction of an \<^verbatim>\<open>Err\<close>\<close>

text \<open>
  The constructor of \<^verbatim>\<open>ErrImpl\<close> stores \<^verbatim>\<open>val\<close> and computes \<^verbatim>\<open>_stack\<close> from
  \<^verbatim>\<open>new Error().stack\<close>: the text is split into lines, the first two lines are dropped
  (\<^verbatim>\<open>slice(2)\<close>), the next line is dropped too when it mentions \<^verbatim>\<open>ErrImpl\<close>, and the
  rest is joined again. The text of \<^verbatim>\<open>new Error().stack\<close> belongs to the engine and to
  the place of the call, so it is the first argument of the model; the source reads it
  with the non-null assertion \<^verbatim>\<open>!\<close>, and the model takes it as a string accordingly.
\<close>

definition Err :: "string \<Rightarrow> 'e \<Rightarrow> ('a, 'e) Result" where
  "Err stack val =
     (let stackLines = drop 2 (split newline stack);
          stackLines = (if length stackLines > 0 \<and> includes_str (hd stackLines) ''ErrImpl''
                        then tl stackLines else stackLines)
      in ErrImpl val (join [newline] stackLines))"

section \<open>The aggregators of the two namespaces\<close>

text \<open>
  \<^verbatim>\<open>Option.all(...options)\<close>: a \<^verbatim>\<open>for ... of\<close> loop over the arguments that pushes the
  \<^verbatim>\<open>val\<close> of every \<^verbatim>\<open>Some\<close> onto the array \<^verbatim>\<open>someOption\<close> and returns at the first
  argument whose \<^verbatim>\<open>some\<close> is false; after the loop it returns \<^verbatim>\<open>Some(someOption)\<close>.
  The loop function carries the array.
\<close>

fun Option_all_loop :: "'a list \<Rightarrow> 'a Option list \<Rightarrow> 'a list Option" where
  "Option_all_loop someOption [] = SomeImpl someOption"
| "Option_all_loop someOption (option # options) =
     (case option of
        SomeImpl v \<Rightarrow> Option_all_loop (someOption @ [v]) options
      | NoneImpl \<Rightarrow> NoneImpl)"

definition Option_all :: "'a Option list \<Rightarrow> 'a list Option" where
  "Option_all options = Option_all_loop [] options"

text \<open>
  \<^verbatim>\<open>Option.any(...options)\<close>: the body of the loop returns in both branches of
  \<^verbatim>\<open>if (option.some)\<close>, so only a first argument is ever looked at; with no argument the
  function returns \<^verbatim>\<open>None\<close>.
\<close>

fun Option_any :: "'a Option list \<Rightarrow> 'a Option" where
  "Option_any [] = NoneImpl"
| "Option_any (option # options) = (if some option then option else option)"

text \<open>
  \<^verbatim>\<open>Result.all(...results)\<close>: as \<^verbatim>\<open>Option.all\<close>, returning the first \<^verbatim>\<open>Err\<close> object
  (its \<^verbatim>\<open>val\<close> and its \<^verbatim>\<open>_stack\<close>) or \<^verbatim>\<open>new Ok(okResult)\<close>.
\<close>

fun Result_all_loop :: "'a list \<Rightarrow> ('a, 'e) Result list \<Rightarrow> ('a list, 'e) Result" where
  "Result_all_loop okResult [] = OkImpl okResult"
| "Result_all_loop okResult (result # results) =
     (case result of
        OkImpl v \<Rightarrow> Result_all_loop (okResult @ [v]) results
      | ErrImpl e st \<Rightarrow> ErrImpl e st)"

definition Result_all :: "('a, 'e) Result list \<Rightarrow> ('a list, 'e) Result" where
  "Result_all results = Result_all_loop [] results"

text \<open>
  \<^verbatim>\<open>Result.any(...results)\<close>: returns the first \<^verbatim>\<open>Ok\<close> object, pushing the \<^verbatim>\<open>val\<close> of
  every \<^verbatim>\<open>Err\<close> met before onto \<^verbatim>\<open>errResult\<close>; after the loop it returns
  \<^verbatim>\<open>new Err(errResult)\<close>, whose provenance is taken at that point.
\<close>

fun Result_any_loop :: "string \<Rightarrow> 'e list \<Rightarrow> ('a, 'e) Result list \<Rightarrow> ('a, 'e list) Result" where
  "Result_any_loop stack errResult [] = Err stack errResult"
| "Result_any_loop stack errResult (result # results) =
     (case result of
        OkImpl v \<Rightarrow> OkImpl v
      | ErrImpl e st \<Rightarrow> Result_any_loop stack (errResult @ [e]) results)"

definition Result_any :: "string \<Rightarrow> ('a, 'e) Result list \<Rightarrow> ('a, 'e list) Result" where
  "Result_any stack results = Result_any_loop stack [] results"

text \<open>The payload of a \<^verbatim>\<open>Some\<close>, of an \<^verbatim>\<open>Ok\<close> and of an \<^verbatim>\<open>Err\<close>, as a list of length at most one.\<close>

fun some_vals :: "'a Option \<Rightarrow> 'a list" where
  "some_vals NoneImpl = []"
| "some_vals (SomeImpl v) = [v]"

fun ok_vals :: "('a, 'e) Result \<Rightarrow> 'a list" where
  "ok_vals (ErrImpl e st) = []"
| "ok_vals (OkImpl v) = [v]"

fun err_vals :: "('a, 'e) Result \<Rightarrow> 'e list" where
  "err_vals (ErrImpl e st) = [e]"
| "err_vals (OkImpl v) = []"

section \<open>Raising, and functions supplied by the caller\<close>

text \<open>
  The unsafe accessors execute \<^verbatim>\<open>throw new Error(message)\<close> or
  \<^verbatim>\<open>throw new Error(message, { cause: this.val })\<close>. The object thrown is modelled by its
  message and its optional cause; a function of the model that can throw returns a sum
  whose left summand is the value thrown. (The specification calls this object an
  UnwrapError; the source constructs it with the host's \<^verbatim>\<open>Error\<close> class.)
\<close>

datatype 'c Error = Error (message: string) (cause: "'c option")

text \<open>
  A function supplied by the caller (\<^verbatim>\<open>mapper\<close>, \<^verbatim>\<open>default_\<close>, \<^verbatim>\<open>other\<close>, \<^verbatim>\<open>op\<close>) is
  arbitrary code of the host language: it can change the state of the program and it can
  throw. It is modelled as a function from the state before the call to the completion
  of the call (the value thrown on the left, the value returned on the right) and the
  state after. A method that receives such a function has the same shape; whether it
  invoked the function is then visible in the state it returns.
\<close>

type_synonym ('s, 'x, 'r) eff = "'s \<Rightarrow> ('x + 'r) \<times> 's"

text \<open>\<^verbatim>\<open>return v\<close> without any call.\<close>

definition returns :: "'r \<Rightarrow> ('s, 'x, 'r) eff" where
  "returns v = (\<lambda>s. (Inr v, s))"

text \<open>
  \<^verbatim>\<open>return k(call())\<close> for a constructor \<^verbatim>\<open>k\<close> that cannot throw: an exception of the call
  passes through, a returned value is wrapped.
\<close>

definition wrapped :: "('r \<Rightarrow> 'q) \<Rightarrow> ('s, 'x, 'r) eff \<Rightarrow> ('s, 'x, 'q) eff" where
  "wrapped k call =
     (\<lambda>s. case call s of
            (Inl x, s') \<Rightarrow> (Inl x, s')
          | (Inr v, s') \<Rightarrow> (Inr (k v), s'))"

section \<open>The methods of \<^verbatim>\<open>Option\<close>\<close>

text \<open>
  Each function has one equation for the method of \<^verbatim>\<open>NoneImpl\<close> and one for the method
  of \<^verbatim>\<open>SomeImpl\<close>, in the order of the source; the receiver is the first argument.
  \<^verbatim>\<open>Some(x)\<close> is \<^verbatim>\<open>new SomeImpl(x)\<close>.
\<close>

fun Option_unwrapOr :: "'a Option \<Rightarrow> 'a \<Rightarrow> 'a" where
  "Option_unwrapOr NoneImpl val = val"
| "Option_unwrapOr (SomeImpl v) val = v"

fun Option_expect :: "'a Option \<Rightarrow> string \<Rightarrow> 'c Error + 'a" where
  "Option_expect NoneImpl msg = Inl (Error msg None)"
| "Option_expect (SomeImpl v) msg = Inr v"

fun Option_unwrap :: "'a Option \<Rightarrow> 'c Error + 'a" where
  "Option_unwrap NoneImpl = Inl (Error ''Tried to unwrap None'' None)"
| "Option_unwrap (SomeImpl v) = Inr v"

fun Option_map :: "'a Option \<Rightarrow> ('a \<Rightarrow> ('s, 'x, 'b) eff) \<Rightarrow> ('s, 'x, 'b Option) eff" where
  "Option_map NoneImpl mapper = returns NoneImpl"
| "Option_map (SomeImpl v) mapper = wrapped SomeImpl (mapper v)"

fun Option_mapOr :: "'a Option \<Rightarrow> 'b \<Rightarrow> ('a \<Rightarrow> ('s, 'x, 'b) eff) \<Rightarrow> ('s, 'x, 'b) eff" where
  "Option_mapOr NoneImpl default_val mapper = returns default_val"
| "Option_mapOr (SomeImpl v) default_val mapper = mapper v"

fun Option_mapOrElse ::
  "'a Option \<Rightarrow> ('s, 'x, 'b) eff \<Rightarrow> ('a \<Rightarrow> ('s, 'x, 'b) eff) \<Rightarrow> ('s, 'x, 'b) eff" where
  "Option_mapOrElse NoneImpl default_fn mapper = default_fn"
| "Option_mapOrElse (SomeImpl v) default_fn mapper = mapper v"

fun Option_or :: "'a Option \<Rightarrow> 'a Option \<Rightarrow> 'a Option" where
  "Option_or NoneImpl other = other"
| "Option_or (SomeImpl v) other = SomeImpl v"

fun Option_orElse :: "'a Option \<Rightarrow> ('s, 'x, 'a Option) eff \<Rightarrow> ('s, 'x, 'a Option) eff" where
  "Option_orElse NoneImpl other = other"
| "Option_orElse (SomeImpl v) other = returns (SomeImpl v)"

fun Option_andThen ::
  "'a Option \<Rightarrow> ('a \<Rightarrow> ('s, 'x, 'b Option) eff) \<Rightarrow> ('s, 'x, 'b Option) eff" where
  "Option_andThen NoneImpl op = returns NoneImpl"
| "Option_andThen (SomeImpl v) mapper = mapper v"

text \<open>\<^verbatim>\<open>None.toResult(error)\<close> constructs an \<^verbatim>\<open>Err\<close>, which reads the stack text.\<close>

fun Option_toResult :: "string \<Rightarrow> 'a Option \<Rightarrow> 'e \<Rightarrow> ('a, 'e) Result" where
  "Option_toResult stack NoneImpl error = Err stack error"
| "Option_toResult stack (SomeImpl v) error = OkImpl v"

text \<open>
  The helper \<^verbatim>\<open>toString\<close> of \<^verbatim>\<open>utils.js\<close> is imported by the source and is not part of
  it; the functions that call it take it as their first argument.
\<close>

fun Option_toString :: "('a \<Rightarrow> string) \<Rightarrow> 'a Option \<Rightarrow> string" where
  "Option_toString toString NoneImpl = ''None''"
| "Option_toString toString (SomeImpl v) = ''Some('' @ toString v @ '')''"

section \<open>The methods of \<^verbatim>\<open>Result\<close>\<close>

text \<open>
  One equation for the method of \<^verbatim>\<open>ErrImpl\<close> and one for the method of \<^verbatim>\<open>OkImpl\<close>.
  Where \<^verbatim>\<open>ErrImpl\<close> returns \<^verbatim>\<open>this\<close>, the result keeps \<^verbatim>\<open>val\<close> and \<^verbatim>\<open>_stack\<close>.
\<close>

fun Result_else :: "('a, 'e) Result \<Rightarrow> 'a \<Rightarrow> 'a" where
  "Result_else (ErrImpl e st) val = val"
| "Result_else (OkImpl v) val = v"

fun Result_unwrapOr :: "('a, 'e) Result \<Rightarrow> 'a \<Rightarrow> 'a" where
  "Result_unwrapOr (ErrImpl e st) val = val"
| "Result_unwrapOr (OkImpl v) val = v"

fun Result_expect :: "('e \<Rightarrow> string) \<Rightarrow> ('a, 'e) Result \<Rightarrow> string \<Rightarrow> 'e Error + 'a" where
  "Result_expect toString (ErrImpl e st) msg =
     Inl (Error (msg @ '' - Error: '' @ toString e @ [newline] @ st) (Some e))"
| "Result_expect toString (OkImpl v) msg = Inr v"

fun Result_expectErr :: "('a, 'e) Result \<Rightarrow> string \<Rightarrow> 'c Error + 'e" where
  "Result_expectErr (ErrImpl e st) msg = Inr e"
| "Result_expectErr (OkImpl v) msg = Inl (Error msg None)"

fun Result_unwrap :: "('e \<Rightarrow> string) \<Rightarrow> ('a, 'e) Result \<Rightarrow> 'e Error + 'a" where
  "Result_unwrap toString (ErrImpl e st) =
     Inl (Error (''Tried to unwrap Error: '' @ toString e @ [newline] @ st) (Some e))"
| "Result_unwrap toString (OkImpl v) = Inr v"

fun Result_unwrapErr :: "('a \<Rightarrow> string) \<Rightarrow> ('a, 'e) Result \<Rightarrow> 'a Error + 'e" where
  "Result_unwrapErr toString (ErrImpl e st) = Inr e"
| "Result_unwrapErr toString (OkImpl v) =
     Inl (Error (''Tried to unwrap Ok: '' @ toString v) (Some v))"

fun Result_map ::
  "('a, 'e) Result \<Rightarrow> ('a \<Rightarrow> ('s, 'x, 'b) eff) \<Rightarrow> ('s, 'x, ('b, 'e) Result) eff" where
  "Result_map (ErrImpl e st) mapper = returns (ErrImpl e st)"
| "Result_map (OkImpl v) mapper = wrapped OkImpl (mapper v)"

fun Result_andThen ::
  "('a, 'e) Result \<Rightarrow> ('a \<Rightarrow> ('s, 'x, ('b, 'e) Result) eff) \<Rightarrow> ('s, 'x, ('b, 'e) Result) eff" where
  "Result_andThen (ErrImpl e st) op = returns (ErrImpl e st)"
| "Result_andThen (OkImpl v) mapper = mapper v"

fun Result_mapErr ::
  "string \<Rightarrow> ('a, 'e) Result \<Rightarrow> ('e \<Rightarrow> ('s, 'x, 'f) eff) \<Rightarrow> ('s, 'x, ('a, 'f) Result) eff" where
  "Result_mapErr stack (ErrImpl e st) mapper = wrapped (Err stack) (mapper e)"
| "Result_mapErr stack (OkImpl v) mapper = returns (OkImpl v)"

fun Result_mapOr :: "('a, 'e) Result \<Rightarrow> 'b \<Rightarrow> ('a \<Rightarrow> ('s, 'x, 'b) eff) \<Rightarrow> ('s, 'x, 'b) eff" where
  "Result_mapOr (ErrImpl e st) default_val mapper = returns default_val"
| "Result_mapOr (OkImpl v) default_val mapper = mapper v"

fun Result_mapOrElse ::
  "('a, 'e) Result \<Rightarrow> ('s, 'x, 'b) eff \<Rightarrow> ('a \<Rightarrow> ('s, 'x, 'b) eff) \<Rightarrow> ('s, 'x, 'b) eff" where
  "Result_mapOrElse (ErrImpl e st) default_fn mapper = default_fn"
| "Result_mapOrElse (OkImpl v) default_fn mapper = mapper v"

fun Result_or :: "('a, 'e) Result \<Rightarrow> ('a, 'f) Result \<Rightarrow> ('a, 'f) Result" where
  "Result_or (ErrImpl e st) other = other"
| "Result_or (OkImpl v) other = OkImpl v"

fun Result_orElse ::
  "('a, 'e) Result \<Rightarrow> ('s, 'x, ('a, 'f) Result) eff \<Rightarrow> ('s, 'x, ('a, 'f) Result) eff" where
  "Result_orElse (ErrImpl e st) other = other"
| "Result_orElse (OkImpl v) other = returns (OkImpl v)"

fun Result_toOption :: "('a, 'e) Result \<Rightarrow> 'a Option" where
  "Result_toOption (ErrImpl e st) = NoneImpl"
| "Result_toOption (OkImpl v) = SomeImpl v"

fun Result_toString :: "('a \<Rightarrow> string) \<Rightarrow> ('e \<Rightarrow> string) \<Rightarrow> ('a, 'e) Result \<Rightarrow> string" where
  "Result_toString toStringT toStringE (ErrImpl e st) = ''Err('' @ toStringE e @ '')''"
| "Result_toString toStringT toStringE (OkImpl v) = ''Ok('' @ toStringT v @ '')''"

section \<open>Iteration\<close>

text \<open>
  Both interfaces extend \<^verbatim>\<open>Iterable\<close>. The member \<^verbatim>\<open>[Symbol.iterator]()\<close> of \<^verbatim>\<open>NoneImpl\<close>
  and of \<^verbatim>\<open>ErrImpl\<close> returns the object
  \<^verbatim>\<open>{ next() { return { done: true, value: undefined! } } }\<close>. The member of \<^verbatim>\<open>SomeImpl\<close>
  and of \<^verbatim>\<open>OkImpl\<close> evaluates
  \<^verbatim>\<open>Symbol.iterator in obj ? obj[Symbol.iterator]() : { next() { ... } }\<close>
  for \<^verbatim>\<open>obj = Object(this.val)\<close>: it tests that the key is present and then calls what
  is stored under it.

  An answer of \<^verbatim>\<open>next()\<close> either delivers a value or says \<^verbatim>\<open>done: true\<close> (the \<^verbatim>\<open>value\<close>
  of such an answer is not read by an iteration and is left out). The iterator a member
  returns is the object literal above or the object the payload's own method returned,
  of whatever kind \<^verbatim>\<open>'it\<close> that is.
\<close>

datatype 'v IteratorResult = IteratorYieldResult 'v | IteratorReturnResult

datatype 'it Iterator = EmptyIterator | PayloadIterator 'it

text \<open>
  What \<^verbatim>\<open>Object(val)\<close> holds under \<^verbatim>\<open>Symbol.iterator\<close>, if the key is present: something
  that cannot be called, or a method, which is code of whoever built the payload and so
  can change the state and can throw. The argument \<^verbatim>\<open>symbol_iterator\<close> of the functions
  below gives this for every payload, \<^verbatim>\<open>None\<close> when the key is absent.
\<close>

datatype ('s, 'x, 'it) member = NotCallable | Method "('s, 'x, 'it) eff"

text \<open>
  What the call \<^verbatim>\<open>obj[Symbol.iterator]()\<close> can throw: the host's \<^verbatim>\<open>TypeError\<close> when the
  member is not a function, or whatever the method throws.
\<close>

datatype 'x thrown = TypeError | Thrown 'x

definition call_member :: "('s, 'x, 'it) member \<Rightarrow> ('s, 'x thrown, 'it Iterator) eff" where
  "call_member m =
     (case m of
        NotCallable \<Rightarrow> (\<lambda>s. (Inl TypeError, s))
      | Method f \<Rightarrow>
          (\<lambda>s. case f s of
                 (Inl x, s') \<Rightarrow> (Inl (Thrown x), s')
               | (Inr it, s') \<Rightarrow> (Inr (PayloadIterator it), s')))"

fun Option_iterator ::
  "('a \<Rightarrow> ('s, 'x, 'it) member option) \<Rightarrow> 'a Option \<Rightarrow> ('s, 'x thrown, 'it Iterator) eff" where
  "Option_iterator symbol_iterator NoneImpl = returns EmptyIterator"
| "Option_iterator symbol_iterator (SomeImpl v) =
     (case symbol_iterator v of
        Some m \<Rightarrow> call_member m
      | None \<Rightarrow> returns EmptyIterator)"

fun Result_iterator ::
  "('a \<Rightarrow> ('s, 'x, 'it) member option) \<Rightarrow> ('a, 'e) Result \<Rightarrow> ('s, 'x thrown, 'it Iterator) eff"
where
  "Result_iterator symbol_iterator (ErrImpl e st) = returns EmptyIterator"
| "Result_iterator symbol_iterator (OkImpl v) =
     (case symbol_iterator v of
        Some m \<Rightarrow> call_member m
      | None \<Rightarrow> returns EmptyIterator)"

text \<open>
  \<^verbatim>\<open>next()\<close> on the iterator a member returned: the object literal answers \<^verbatim>\<open>done: true\<close>
  every time; the payload's iterator answers as its own \<^verbatim>\<open>next\<close> does, which can throw.
\<close>

fun Iterator_next ::
  "('it \<Rightarrow> 'x + 'v IteratorResult \<times> 'it) \<Rightarrow> 'it Iterator \<Rightarrow>
   'x + 'v IteratorResult \<times> 'it Iterator" where
  "Iterator_next next_own EmptyIterator = Inr (IteratorReturnResult, EmptyIterator)"
| "Iterator_next next_own (PayloadIterator it) =
     (case next_own it of
        Inl x \<Rightarrow> Inl x
      | Inr (r, it') \<Rightarrow> Inr (r, PayloadIterator it'))"

text \<open>
  \<^verbatim>\<open>for (const x of ...)\<close> with a body that collects \<^verbatim>\<open>x\<close>, over an iterator in state
  \<^verbatim>\<open>it\<close> whose \<^verbatim>\<open>next()\<close> is the argument \<^verbatim>\<open>next\<close>: it calls \<^verbatim>\<open>next()\<close> until an answer
  says \<^verbatim>\<open>done: true\<close> or a call throws. An iterator need not ever say so; the function
  counts the calls it may still make and gives \<^verbatim>\<open>None\<close> when they are used up.
\<close>

fun for_of ::
  "nat \<Rightarrow> ('it \<Rightarrow> 'x + 'v IteratorResult \<times> 'it) \<Rightarrow> 'it \<Rightarrow> ('x + 'v list) option" where
  "for_of 0 next it = None"
| "for_of (Suc fuel) next it =
     (case next it of
        Inl x \<Rightarrow> Some (Inl x)
      | Inr (IteratorReturnResult, it') \<Rightarrow> Some (Inr [])
      | Inr (IteratorYieldResult v, it') \<Rightarrow>
          (case for_of fuel next it' of
             None \<Rightarrow> None
           | Some (Inl x) \<Rightarrow> Some (Inl x)
           | Some (Inr vs) \<Rightarrow> Some (Inr (v # vs))))"

text \<open>
  Values of the host language, as far as iteration tells them apart: \<^verbatim>\<open>undefined\<close>,
  \<^verbatim>\<open>null\<close>, booleans, (integral) numbers, strings, arrays and plain objects, whose keys
  are names or the symbol \<^verbatim>\<open>Symbol.iterator\<close>. There are no functions among these values,
  so what a plain object holds under \<^verbatim>\<open>Symbol.iterator\<close> cannot be called. \<^verbatim>\<open>Object(v)\<close>
  of an array or of a string has the host's method under that key: its iterator is
  modelled by the list of the elements still to come, for a string the characters as
  one-character strings. No other value has the key.
\<close>

datatype key = Named string | SymbolIterator

datatype jsval =
    JSUndefined
  | JSNull
  | JSBoolean bool
  | JSNumber int
  | JSString string
  | JSArray "jsval list"
  | JSObject "(key \<times> jsval) list"

fun js_symbol_iterator :: "jsval \<Rightarrow> ('s, 'x, jsval list) member option" where
  "js_symbol_iterator (JSArray elements) = Some (Method (returns elements))"
| "js_symbol_iterator (JSString s) = Some (Method (returns (map (\<lambda>c. JSString [c]) s)))"
| "js_symbol_iterator (JSObject properties) =
     (case map_of properties SymbolIterator of
        Some stored \<Rightarrow> Some NotCallable
      | None \<Rightarrow> None)"
| "js_symbol_iterator v = None"

fun js_next :: "jsval list \<Rightarrow> 'x + jsval IteratorResult \<times> jsval list" where
  "js_next [] = Inr (IteratorReturnResult, [])"
| "js_next (element # elements) = Inr (IteratorYieldResult element, elements)"

text \<open>
  The host's own notion: a value is iterable when \<^verbatim>\<open>Object(v)\<close> has a method under
  \<^verbatim>\<open>Symbol.iterator\<close>.
\<close>

fun iterable :: "('s, 'x, 'it) member option \<Rightarrow> bool" where
  "iterable (Some (Method f)) = True"
| "iterable (Some NotCallable) = False"
| "iterable None = False"

section \<open>The boundary to code that throws\<close>

text \<open>
  \<^verbatim>\<open>Result.wrap(op)\<close>: \<^verbatim>\<open>try { return new Ok(op()) } catch (e) { return new Err(e) }\<close>.
\<close>

definition Result_wrap :: "string \<Rightarrow> ('s, 'e, 'a) eff \<Rightarrow> 's \<Rightarrow> ('a, 'e) Result \<times> 's" where
  "Result_wrap stack op s =
     (case op s of
        (Inr v, s') \<Rightarrow> (OkImpl v, s')
      | (Inl e, s') \<Rightarrow> (Err stack e, s'))"

text \<open>
  A promise of the host language is modelled by the way it ends: it is fulfilled with a
  value, rejected with a reason, or stays pending for ever. \<^verbatim>\<open>p.then(onFulfilled)\<close> and
  \<^verbatim>\<open>p.catch(onRejected)\<close> are the host's: the new promise ends as the callback completes
  on the outcome it handles, a callback that throws rejects it, and the other outcome is
  passed on. \<^verbatim>\<open>Promise.resolve(v)\<close> of a value that is not a promise is fulfilled with it.
\<close>

datatype ('a, 'r) Promise = Pending | Fulfilled 'a | Rejected 'r

fun Promise_then :: "('a, 'r) Promise \<Rightarrow> ('a \<Rightarrow> 'r + 'b) \<Rightarrow> ('b, 'r) Promise" where
  "Promise_then Pending onFulfilled = Pending"
| "Promise_then (Fulfilled v) onFulfilled =
     (case onFulfilled v of Inr u \<Rightarrow> Fulfilled u | Inl x \<Rightarrow> Rejected x)"
| "Promise_then (Rejected r) onFulfilled = Rejected r"

fun Promise_catch :: "('a, 'r) Promise \<Rightarrow> ('r \<Rightarrow> 'q + 'a) \<Rightarrow> ('a, 'q) Promise" where
  "Promise_catch Pending onRejected = Pending"
| "Promise_catch (Fulfilled v) onRejected = Fulfilled v"
| "Promise_catch (Rejected r) onRejected =
     (case onRejected r of Inr u \<Rightarrow> Fulfilled u | Inl x \<Rightarrow> Rejected x)"

definition Promise_resolve :: "'a \<Rightarrow> ('a, 'q) Promise" where
  "Promise_resolve v = Fulfilled v"

text \<open>
  \<^verbatim>\<open>Result.wrapAsync(op)\<close>:
  \<^verbatim>\<open>try { return op().then((val) => new Ok(val)).catch((e) => new Err(e)) }
  catch (e) { return Promise.resolve(new Err(e)) }\<close>.
  The two \<^verbatim>\<open>Err\<close> objects are constructed at different places, the first one inside the
  rejection callback and the second one in the \<^verbatim>\<open>catch\<close> block, so the function takes
  the stack text of each.
\<close>

definition Result_wrapAsync ::
  "string \<Rightarrow> string \<Rightarrow> ('s, 'e, ('a, 'e) Promise) eff \<Rightarrow> 's \<Rightarrow> (('a, 'e) Result, 'q) Promise \<times> 's"
where
  "Result_wrapAsync stack_callback stack_catch op s =
     (case op s of
        (Inr promise, s') \<Rightarrow>
          (Promise_catch
             (Promise_then promise (\<lambda>val. Inr (OkImpl val)))
             (\<lambda>e. Inr (Err stack_callback e)),
           s')
      | (Inl e, s') \<Rightarrow> (Promise_resolve (Err stack_catch e), s'))"

section \<open>Calling a method of the interface\<close>

text \<open>
  The members of \<^verbatim>\<open>BaseOption\<close> and of \<^verbatim>\<open>BaseResult\<close> (with \<^verbatim>\<open>toString\<close>, which both
  classes of each pair define), each with its arguments. Values and errors share one
  type here, as they do in the host language.
\<close>

datatype ('s, 'x, 'a) Option_method =
    O_iterator
  | O_expect string
  | O_unwrap
  | O_unwrapOr 'a
  | O_andThen "'a \<Rightarrow> ('s, 'x, 'a Option) eff"
  | O_map "'a \<Rightarrow> ('s, 'x, 'a) eff"
  | O_mapOr 'a "'a \<Rightarrow> ('s, 'x, 'a) eff"
  | O_mapOrElse "('s, 'x, 'a) eff" "'a \<Rightarrow> ('s, 'x, 'a) eff"
  | O_or "'a Option"
  | O_orElse "('s, 'x, 'a Option) eff"
  | O_toResult 'a
  | O_toString

datatype ('s, 'x, 'a) Result_method =
    R_iterator
  | R_expect string
  | R_expectErr string
  | R_unwrap
  | R_unwrapErr
  | R_else 'a
  | R_unwrapOr 'a
  | R_andThen "'a \<Rightarrow> ('s, 'x, ('a, 'a) Result) eff"
  | R_map "'a \<Rightarrow> ('s, 'x, 'a) eff"
  | R_mapErr "'a \<Rightarrow> ('s, 'x, 'a) eff"
  | R_mapOr 'a "'a \<Rightarrow> ('s, 'x, 'a) eff"
  | R_mapOrElse "('s, 'x, 'a) eff" "'a \<Rightarrow> ('s, 'x, 'a) eff"
  | R_or "('a, 'a) Result"
  | R_orElse "('s, 'x, ('a, 'a) Result) eff"
  | R_toOption
  | R_toString



text \<open>
  What a call gives back, and how it completes: it returns; the method itself raises an
  \<^verbatim>\<open>Error\<close> with \<^verbatim>\<open>throw\<close>; the host raises a \<^verbatim>\<open>TypeError\<close> because the method calls
  something that is not a function; or code supplied by the caller (a function passed
  as an argument, the payload's iterator method) throws and the method lets the
  exception pass.
\<close>

datatype ('a, 'it) returned =
    Value 'a
  | OptionValue "'a Option"
  | ResultValue "('a, 'a) Result"
  | Text string
  | IteratorObject "'it Iterator"

datatype ('a, 'x, 'it) completion =
    Returns "('a, 'it) returned"
  | Raises "'a Error"
  | RaisesTypeError
  | Propagates 'x

text \<open>\<^verbatim>\<open>return r\<close>, \<^verbatim>\<open>throw new Error(...)\<close>, and \<^verbatim>\<open>return k(f(...))\<close> for a supplied \<^verbatim>\<open>f\<close>.\<close>

definition returning :: "('a, 'it) returned \<Rightarrow> 's \<Rightarrow> ('a, 'x, 'it) completion \<times> 's" where
  "returning r = (\<lambda>s. (Returns r, s))"

definition throwing :: "'a Error \<Rightarrow> 's \<Rightarrow> ('a, 'x, 'it) completion \<times> 's" where
  "throwing e = (\<lambda>s. (Raises e, s))"

definition calling ::
  "('r \<Rightarrow> ('a, 'it) returned) \<Rightarrow> ('s, 'x, 'r) eff \<Rightarrow> 's \<Rightarrow> ('a, 'x, 'it) completion \<times> 's" where
  "calling k f =
     (\<lambda>s. case f s of
            (Inl x, s') \<Rightarrow> (Propagates x, s')
          | (Inr v, s') \<Rightarrow> (Returns (k v), s'))"

text \<open>
  The four classes, each as the table of its members: one equation per member, its
  right-hand side the body the class gives it. The arguments before the member are the
  helper \<^verbatim>\<open>toString\<close>, the payloads' \<^verbatim>\<open>Symbol.iterator\<close>, the stack text for an \<^verbatim>\<open>Err\<close>
  the body constructs, and the fields of \<^verbatim>\<open>this\<close>, as far as the class needs them.
\<close>

fun NoneImpl_call ::
  "string \<Rightarrow> ('s, 'x, 'a) Option_method \<Rightarrow> 's \<Rightarrow> ('a, 'x, 'it) completion \<times> 's" where
  "NoneImpl_call stack O_iterator = returning (IteratorObject EmptyIterator)"
| "NoneImpl_call stack (O_unwrapOr val) = returning (Value val)"
| "NoneImpl_call stack (O_expect msg) = throwing (Error msg None)"
| "NoneImpl_call stack O_unwrap = throwing (Error ''Tried to unwrap None'' None)"
| "NoneImpl_call stack (O_map mapper) = returning (OptionValue NoneImpl)"
| "NoneImpl_call stack (O_mapOr default_val mapper) = returning (Value default_val)"
| "NoneImpl_call stack (O_mapOrElse default_fn mapper) = calling Value default_fn"
| "NoneImpl_call stack (O_or other) = returning (OptionValue other)"
| "NoneImpl_call stack (O_orElse other) = calling OptionValue other"
| "NoneImpl_call stack (O_andThen op) = returning (OptionValue NoneImpl)"
| "NoneImpl_call stack (O_toResult error) = returning (ResultValue (Err stack error))"
| "NoneImpl_call stack O_toString = returning (Text ''None'')"

fun SomeImpl_call ::
  "('a \<Rightarrow> string) \<Rightarrow> ('a \<Rightarrow> ('s, 'x, 'it) member option) \<Rightarrow> 'a \<Rightarrow>
   ('s, 'x, 'a) Option_method \<Rightarrow> 's \<Rightarrow> ('a, 'x, 'it) completion \<times> 's" where
  "SomeImpl_call toString symbol_iterator v O_iterator =
     (case symbol_iterator v of
        Some NotCallable \<Rightarrow> (\<lambda>s. (RaisesTypeError, s))
      | Some (Method f) \<Rightarrow> calling (\<lambda>it. IteratorObject (PayloadIterator it)) f
      | None \<Rightarrow> returning (IteratorObject EmptyIterator))"
| "SomeImpl_call toString symbol_iterator v (O_unwrapOr val) = returning (Value v)"
| "SomeImpl_call toString symbol_iterator v (O_expect msg) = returning (Value v)"
| "SomeImpl_call toString symbol_iterator v O_unwrap = returning (Value v)"
| "SomeImpl_call toString symbol_iterator v (O_map mapper) =
     calling (\<lambda>u. OptionValue (SomeImpl u)) (mapper v)"
| "SomeImpl_call toString symbol_iterator v (O_mapOr default_val mapper) =
     calling Value (mapper v)"
| "SomeImpl_call toString symbol_iterator v (O_mapOrElse default_fn mapper) =
     calling Value (mapper v)"
| "SomeImpl_call toString symbol_iterator v (O_or other) = returning (OptionValue (SomeImpl v))"
| "SomeImpl_call toString symbol_iterator v (O_orElse other) =
     returning (OptionValue (SomeImpl v))"
| "SomeImpl_call toString symbol_iterator v (O_andThen mapper) =
     calling OptionValue (mapper v)"
| "SomeImpl_call toString symbol_iterator v (O_toResult error) =
     returning (ResultValue (OkImpl v))"
| "SomeImpl_call toString symbol_iterator v O_toString =
     returning (Text (''Some('' @ toString v @ '')''))"

fun ErrImpl_call ::
  "('a \<Rightarrow> string) \<Rightarrow> string \<Rightarrow> 'a \<Rightarrow> string \<Rightarrow>
   ('s, 'x, 'a) Result_method \<Rightarrow> 's \<Rightarrow> ('a, 'x, 'it) completion \<times> 's" where
  "ErrImpl_call toString stack e st R_iterator = returning (IteratorObject EmptyIterator)"
| "ErrImpl_call toString stack e st (R_else val) = returning (Value val)"
| "ErrImpl_call toString stack e st (R_unwrapOr val) = returning (Value val)"
| "ErrImpl_call toString stack e st (R_expect msg) =
     throwing (Error (msg @ '' - Error: '' @ toString e @ [newline] @ st) (Some e))"
| "ErrImpl_call toString stack e st (R_expectErr msg) = returning (Value e)"
| "ErrImpl_call toString stack e st R_unwrap =
     throwing (Error (''Tried to unwrap Error: '' @ toString e @ [newline] @ st) (Some e))"
| "ErrImpl_call toString stack e st R_unwrapErr = returning (Value e)"
| "ErrImpl_call toString stack e st (R_map mapper) = returning (ResultValue (ErrImpl e st))"
| "ErrImpl_call toString stack e st (R_andThen op) = returning (ResultValue (ErrImpl e st))"
| "ErrImpl_call toString stack e st (R_mapErr mapper) =
     calling (\<lambda>u. ResultValue (Err stack u)) (mapper e)"
| "ErrImpl_call toString stack e st (R_mapOr default_val mapper) = returning (Value default_val)"
| "ErrImpl_call toString stack e st (R_mapOrElse default_fn mapper) = calling Value default_fn"
| "ErrImpl_call toString stack e st (R_or other) = returning (ResultValue other)"
| "ErrImpl_call toString stack e st (R_orElse other) = calling ResultValue other"
| "ErrImpl_call toString stack e st R_toOption = returning (OptionValue NoneImpl)"
| "ErrImpl_call toString stack e st R_toString =
     returning (Text (''Err('' @ toString e @ '')''))"

fun OkImpl_call ::
  "('a \<Rightarrow> string) \<Rightarrow> ('a \<Rightarrow> ('s, 'x, 'it) member option) \<Rightarrow> 'a \<Rightarrow>
   ('s, 'x, 'a) Result_method \<Rightarrow> 's \<Rightarrow> ('a, 'x, 'it) completion \<times> 's" where
  "OkImpl_call toString symbol_iterator v R_iterator =
     (case symbol_iterator v of
        Some NotCallable \<Rightarrow> (\<lambda>s. (RaisesTypeError, s))
      | Some (Method f) \<Rightarrow> calling (\<lambda>it. IteratorObject (PayloadIterator it)) f
      | None \<Rightarrow> returning (IteratorObject EmptyIterator))"
| "OkImpl_call toString symbol_iterator v (R_else val) = returning (Value v)"
| "OkImpl_call toString symbol_iterator v (R_unwrapOr val) = returning (Value v)"
| "OkImpl_call toString symbol_iterator v (R_expect msg) = returning (Value v)"
| "OkImpl_call toString symbol_iterator v (R_expectErr msg) = throwing (Error msg None)"
| "OkImpl_call toString symbol_iterator v R_unwrap = returning (Value v)"
| "OkImpl_call toString symbol_iterator v R_unwrapErr =
     throwing (Error (''Tried to unwrap Ok: '' @ toString v) (Some v))"
| "OkImpl_call toString symbol_iterator v (R_map mapper) =
     calling (\<lambda>u. ResultValue (OkImpl u)) (mapper v)"
| "OkImpl_call toString symbol_iterator v (R_andThen mapper) =
     calling ResultValue (mapper v)"
| "OkImpl_call toString symbol_iterator v (R_mapErr mapper) =
     returning (ResultValue (OkImpl v))"
| "OkImpl_call toString symbol_iterator v (R_mapOr default_val mapper) =
     calling Value (mapper v)"
| "OkImpl_call toString symbol_iterator v (R_mapOrElse default_fn mapper) =
     calling Value (mapper v)"
| "OkImpl_call toString symbol_iterator v (R_or other) = returning (ResultValue (OkImpl v))"
| "OkImpl_call toString symbol_iterator v (R_orElse other) =
     returning (ResultValue (OkImpl v))"
| "OkImpl_call toString symbol_iterator v R_toOption = returning (OptionValue (SomeImpl v))"
| "OkImpl_call toString symbol_iterator v R_toString =
     returning (Text (''Ok('' @ toString v @ '')''))"

text \<open>A call \<^verbatim>\<open>recv.member(...)\<close> runs the body of the receiver's class.\<close>

fun Option_call ::
  "('a \<Rightarrow> string) \<Rightarrow> ('a \<Rightarrow> ('s, 'x, 'it) member option) \<Rightarrow> string \<Rightarrow> 'a Option \<Rightarrow>
   ('s, 'x, 'a) Option_method \<Rightarrow> 's \<Rightarrow> ('a, 'x, 'it) completion \<times> 's" where
  "Option_call toString symbol_iterator stack NoneImpl m = NoneImpl_call stack m"
| "Option_call toString symbol_iterator stack (SomeImpl v) m =
     SomeImpl_call toString symbol_iterator v m"

fun Result_call ::
  "('a \<Rightarrow> string) \<Rightarrow> ('a \<Rightarrow> ('s, 'x, 'it) member option) \<Rightarrow> string \<Rightarrow> ('a, 'a) Result \<Rightarrow>
   ('s, 'x, 'a) Result_method \<Rightarrow> 's \<Rightarrow> ('a, 'x, 'it) completion \<times> 's" where
  "Result_call toString symbol_iterator stack (ErrImpl e st) m =
     ErrImpl_call toString stack e st m"
| "Result_call toString symbol_iterator stack (OkImpl v) m =
     OkImpl_call toString symbol_iterator v m"




section \<open>Properties of the aggregators\<close>

subsection \<open>The loops, for any value of the array they carry\<close>

lemma Option_all_loop_all_some:
  "\<forall>x\<in>set options. some x \<Longrightarrow>
   Option_all_loop someOption options = SomeImpl (someOption @ concat (map some_vals options))"
proof (induction options arbitrary: someOption)
  case Nil
  then show ?case by simp
next
  case (Cons option options)
  then show ?case by (cases option) simp_all
qed

lemma Option_all_loop_first_none:
  "\<forall>x\<in>set pre. some x \<Longrightarrow> Option_all_loop someOption (pre @ NoneImpl # post) = NoneImpl"
proof (induction pre arbitrary: someOption)
  case Nil
  then show ?case by simp
next
  case (Cons option pre)
  then show ?case by (cases option) simp_all
qed

lemma Result_all_loop_all_ok:
  "\<forall>r\<in>set results. ok r \<Longrightarrow>
   Result_all_loop okResult results = OkImpl (okResult @ concat (map ok_vals results))"
proof (induction results arbitrary: okResult)
  case Nil
  then show ?case by simp
next
  case (Cons result results)
  then show ?case by (cases result) simp_all
qed

lemma Result_all_loop_first_err:
  "\<forall>r\<in>set pre. ok r \<Longrightarrow>
   Result_all_loop okResult (pre @ ErrImpl e st # post) = ErrImpl e st"
proof (induction pre arbitrary: okResult)
  case Nil
  then show ?case by simp
next
  case (Cons result pre)
  then show ?case by (cases result) simp_all
qed

lemma Result_any_loop_all_err:
  "\<forall>r\<in>set results. err r \<Longrightarrow>
   Result_any_loop stack errResult results =
     Err stack (errResult @ concat (map err_vals results))"
proof (induction results arbitrary: errResult)
  case Nil
  then show ?case by simp
next
  case (Cons result results)
  then show ?case by (cases result) simp_all
qed

lemma Result_any_loop_first_ok:
  "\<forall>r\<in>set pre. err r \<Longrightarrow>
   Result_any_loop stack errResult (pre @ OkImpl v # post) = OkImpl v"
proof (induction pre arbitrary: errResult)
  case Nil
  then show ?case by simp
next
  case (Cons result pre)
  then show ?case by (cases result) simp_all
qed

text \<open>
  Every argument list either consists of \<^verbatim>\<open>Some\<close> values only or has a first \<^verbatim>\<open>None\<close>;
  likewise for \<^verbatim>\<open>Ok\<close> and \<^verbatim>\<open>Err\<close>. The case distinctions of the claims below are
  therefore exhaustive.
\<close>

lemma Option_list_cases:
  "(\<forall>x\<in>set options. some x) \<or>
   (\<exists>pre post. options = pre @ NoneImpl # post \<and> (\<forall>x\<in>set pre. some x))"
proof (induction options)
  case Nil
  then show ?case by simp
next
  case (Cons option options)
  show ?case
  proof (cases option)
    case NoneImpl
    then have "option # options = [] @ NoneImpl # options \<and> (\<forall>x\<in>set []. some x)"
      by simp
    then show ?thesis by blast
  next
    case (SomeImpl v)
    from Cons.IH show ?thesis
    proof
      assume "\<forall>x\<in>set options. some x"
      with SomeImpl show ?thesis by simp
    next
      assume "\<exists>pre post. options = pre @ NoneImpl # post \<and> (\<forall>x\<in>set pre. some x)"
      then obtain pre post where "options = pre @ NoneImpl # post" and "\<forall>x\<in>set pre. some x"
        by blast
      with SomeImpl have "option # options = (option # pre) @ NoneImpl # post
          \<and> (\<forall>x\<in>set (option # pre). some x)"
        by simp
      then show ?thesis by blast
    qed
  qed
qed

lemma Result_list_cases:
  "(\<forall>r\<in>set results. err r) \<or>
   (\<exists>pre v post. results = pre @ OkImpl v # post \<and> (\<forall>r\<in>set pre. err r))"
proof (induction results)
  case Nil
  then show ?case by simp
next
  case (Cons result results)
  show ?case
  proof (cases result)
    case (OkImpl v)
    then have "result # results = [] @ OkImpl v # results \<and> (\<forall>r\<in>set []. err r)"
      by simp
    then show ?thesis by blast
  next
    case (ErrImpl e st)
    from Cons.IH show ?thesis
    proof
      assume "\<forall>r\<in>set results. err r"
      with ErrImpl show ?thesis by simp
    next
      assume "\<exists>pre v post. results = pre @ OkImpl v # post \<and> (\<forall>r\<in>set pre. err r)"
      then obtain pre v post where "results = pre @ OkImpl v # post" and "\<forall>r\<in>set pre. err r"
        by blast
      with ErrImpl have "result # results = (result # pre) @ OkImpl v # post
          \<and> (\<forall>r\<in>set (result # pre). err r)"
        by simp
      then show ?thesis by blast
    qed
  qed
qed

lemma Result_list_cases_ok:
  "(\<forall>r\<in>set results. ok r) \<or>
   (\<exists>pre e st post. results = pre @ ErrImpl e st # post \<and> (\<forall>r\<in>set pre. ok r))"
proof (induction results)
  case Nil
  then show ?case by simp
next
  case (Cons result results)
  show ?case
  proof (cases result)
    case (ErrImpl e st)
    then have "result # results = [] @ ErrImpl e st # results \<and> (\<forall>r\<in>set []. ok r)"
      by simp
    then show ?thesis by blast
  next
    case (OkImpl v)
    from Cons.IH show ?thesis
    proof
      assume "\<forall>r\<in>set results. ok r"
      with OkImpl show ?thesis by simp
    next
      assume "\<exists>pre e st post. results = pre @ ErrImpl e st # post \<and> (\<forall>r\<in>set pre. ok r)"
      then obtain pre e st post
        where "results = pre @ ErrImpl e st # post" and "\<forall>r\<in>set pre. ok r"
        by blast
      with OkImpl have "result # results = (result # pre) @ ErrImpl e st # post
          \<and> (\<forall>r\<in>set (result # pre). ok r)"
        by simp
      then show ?thesis by blast
    qed
  qed
qed

subsection \<open>\<^verbatim>\<open>Option.any\<close>\<close>

text \<open>
  C1. For every non-empty argument list, \<^verbatim>\<open>Option.any\<close> returns the first argument as it
  is, a \<^verbatim>\<open>Some\<close> or the \<^verbatim>\<open>None\<close>; it does not look for a \<^verbatim>\<open>Some\<close> further on, so a
  leading \<^verbatim>\<open>None\<close> is the result even when a \<^verbatim>\<open>Some\<close> follows. For the empty argument
  list it returns \<^verbatim>\<open>None\<close>.
\<close>

theorem Option_any_returns_first_input:
  "Option_any (option # options) = option
   \<and> Option_any (NoneImpl # SomeImpl v # options) = NoneImpl
   \<and> Option_any ([] :: 'a Option list) = NoneImpl"
  by simp

subsection \<open>\<^verbatim>\<open>Result.any\<close>\<close>

text \<open>
  C2. \<^verbatim>\<open>Result.any\<close> goes through its arguments from the left and returns the first
  \<^verbatim>\<open>Ok\<close> among them, whatever follows it; when no argument is an \<^verbatim>\<open>Ok\<close> it returns a
  new \<^verbatim>\<open>Err\<close> whose value is the list of the error values of all arguments, in the order
  of the arguments.
\<close>

theorem Result_any_first_ok_else_all_errors:
  "((\<forall>r\<in>set pre. err r) \<longrightarrow> Result_any stack (pre @ OkImpl v # post) = OkImpl v)
   \<and> ((\<forall>r\<in>set results. err r) \<longrightarrow>
        Result_any stack results = Err stack (concat (map err_vals results)))"
  by (simp add: Result_any_def Result_any_loop_first_ok Result_any_loop_all_err)

theorem Result_any_first_ok_else_all_errors_witness:
  "err (ErrImpl ''a'' ''at f'' :: (int, string) Result)
   \<and> err (ErrImpl ''b'' ''at g'' :: (int, string) Result)
   \<and> Result_any ''Error''
        [ErrImpl ''a'' ''at f'', ErrImpl ''b'' ''at g'', OkImpl (5::int), ErrImpl ''c'' ''at h'']
      = OkImpl 5
   \<and> Result_any ''Error'' [ErrImpl ''a'' ''at f'', ErrImpl ''b'' ''at g'' :: (int, string) Result]
      = ErrImpl [''a'', ''b''] []"
  using Result_any_first_ok_else_all_errors
    [of "[ErrImpl ''a'' ''at f'', ErrImpl ''b'' ''at g'' :: (int, string) Result]"
        "''Error''" "5::int" "[ErrImpl ''c'' ''at h'']"
        "[ErrImpl ''a'' ''at f'', ErrImpl ''b'' ''at g'' :: (int, string) Result]"]
  by (simp add: Err_def newline_def)

subsection \<open>\<^verbatim>\<open>Option.all\<close> and \<^verbatim>\<open>Result.all\<close>\<close>

text \<open>
  C3. \<^verbatim>\<open>Option.all\<close> goes through its arguments from the left and returns \<^verbatim>\<open>None\<close> at the
  first \<^verbatim>\<open>None\<close>; when every argument is a \<^verbatim>\<open>Some\<close> it returns the \<^verbatim>\<open>Some\<close> of the list of
  their values in the order of the arguments. \<^verbatim>\<open>Result.all\<close> returns the first \<^verbatim>\<open>Err\<close>
  among its arguments, with the value and the provenance text of that argument; when
  every argument is an \<^verbatim>\<open>Ok\<close> it returns the \<^verbatim>\<open>Ok\<close> of the list of their values in the
  order of the arguments.
\<close>

theorem all_first_failure_else_tuple:
  "((\<forall>x\<in>set pre. some x) \<longrightarrow> Option_all (pre @ NoneImpl # post) = NoneImpl)
   \<and> ((\<forall>x\<in>set options. some x) \<longrightarrow>
        Option_all options = SomeImpl (concat (map some_vals options)))
   \<and> ((\<forall>r\<in>set rpre. ok r) \<longrightarrow> Result_all (rpre @ ErrImpl e st # rpost) = ErrImpl e st)
   \<and> ((\<forall>r\<in>set results. ok r) \<longrightarrow>
        Result_all results = OkImpl (concat (map ok_vals results)))"
  by (simp add: Option_all_def Result_all_def Option_all_loop_first_none
      Option_all_loop_all_some Result_all_loop_first_err Result_all_loop_all_ok)

theorem all_first_failure_else_tuple_witness:
  "some (SomeImpl (1::int)) \<and> some (SomeImpl (2::int)) \<and> some (SomeImpl (3::int))
   \<and> Option_all [SomeImpl (1::int), NoneImpl, SomeImpl 3] = NoneImpl
   \<and> Option_all [SomeImpl (1::int), SomeImpl 2, SomeImpl 3] = SomeImpl [1, 2, 3]
   \<and> ok (OkImpl (1::int) :: (int, string) Result) \<and> ok (OkImpl (2::int) :: (int, string) Result)
   \<and> Result_all [OkImpl (1::int), ErrImpl ''b'' ''at g'', ErrImpl ''c'' ''at h'', OkImpl 4]
      = ErrImpl ''b'' ''at g''
   \<and> Result_all [OkImpl (1::int), OkImpl 2 :: (int, string) Result] = OkImpl [1, 2]"
  using all_first_failure_else_tuple
    [of "[SomeImpl (1::int)]" "[SomeImpl 3]" "[SomeImpl (1::int), SomeImpl 2, SomeImpl 3]"
        "[OkImpl (1::int) :: (int, string) Result]" "''b''" "''at g''"
        "[ErrImpl ''c'' ''at h'', OkImpl 4]"
        "[OkImpl (1::int), OkImpl 2 :: (int, string) Result]"]
  by simp

subsection \<open>The aggregators without arguments\<close>

text \<open>
  C10. Called without arguments, \<^verbatim>\<open>Option.all\<close> returns the \<^verbatim>\<open>Some\<close> of the empty list,
  \<^verbatim>\<open>Result.all\<close> returns the \<^verbatim>\<open>Ok\<close> of the empty list, and \<^verbatim>\<open>Result.any\<close> returns a new
  \<^verbatim>\<open>Err\<close> of the empty list; none of them fails.
\<close>

theorem aggregators_without_arguments:
  "Option_all ([] :: 'a Option list) = SomeImpl []
   \<and> Result_all ([] :: ('a, 'e) Result list) = OkImpl []
   \<and> Result_any stack ([] :: ('a, 'e) Result list) = Err stack []
   \<and> err (Result_any stack ([] :: ('a, 'e) Result list))
   \<and> err_vals (Result_any stack ([] :: ('a, 'e) Result list)) = [[]]"
  by (simp add: Option_all_def Result_all_def Result_any_def Err_def Let_def)

section \<open>Properties of the unsafe accessors\<close>

text \<open>
  C5. On \<^verbatim>\<open>None\<close>, \<^verbatim>\<open>unwrap()\<close> and \<^verbatim>\<open>expect(msg)\<close> raise for every \<^verbatim>\<open>msg\<close>, and the
  message of the error raised by \<^verbatim>\<open>expect(msg)\<close> is \<^verbatim>\<open>msg\<close> itself. On an \<^verbatim>\<open>Err\<close> with
  value \<^verbatim>\<open>e\<close> and provenance text \<^verbatim>\<open>st\<close>, \<^verbatim>\<open>expect(msg)\<close> raises an error whose message
  is \<^verbatim>\<open>msg\<close>, the text \<^verbatim>\<open> - Error: \<close>, the stringified \<^verbatim>\<open>e\<close>, a line break and \<^verbatim>\<open>st\<close>,
  and whose cause is \<^verbatim>\<open>e\<close>; \<^verbatim>\<open>unwrap()\<close> raises an error built the same way with the
  fixed prefix \<^verbatim>\<open>Tried to unwrap Error: \<close>. This holds in particular for an \<^verbatim>\<open>Err\<close>
  fresh from its constructor, whose provenance text is the one captured there.
\<close>

theorem unsafe_accessors_raise:
  "Option_unwrap (NoneImpl :: 'a Option)
      = Inl (Error ''Tried to unwrap None'' (None :: 'c option))
   \<and> Option_expect (NoneImpl :: 'a Option) msg = Inl (Error msg (None :: 'c option))
   \<and> (\<exists>error :: 'c Error. Option_expect (NoneImpl :: 'a Option) msg = Inl error
          \<and> message error = msg)
   \<and> (\<exists>error. Result_expect toString (ErrImpl e st :: ('a, 'e) Result) msg = Inl error
          \<and> message error = msg @ '' - Error: '' @ toString e @ [newline] @ st
          \<and> cause error = Some e)
   \<and> (\<exists>error. Result_unwrap toString (ErrImpl e st :: ('a, 'e) Result) = Inl error
          \<and> message error = ''Tried to unwrap Error: '' @ toString e @ [newline] @ st
          \<and> cause error = Some e)
   \<and> (\<exists>captured error. (Err stack e :: ('a, 'e) Result) = ErrImpl e captured
          \<and> Result_expect toString (Err stack e :: ('a, 'e) Result) msg = Inl error
          \<and> message error = msg @ '' - Error: '' @ toString e @ [newline] @ captured
          \<and> cause error = Some e)"
  by (simp add: Err_def Let_def)

section \<open>Properties of the conversions\<close>

text \<open>
  C6. For every value \<^verbatim>\<open>v\<close> and all errors \<^verbatim>\<open>e\<close>, \<^verbatim>\<open>e2\<close>:
  \<^verbatim>\<open>Some(v).toResult(e).toOption()\<close> is \<^verbatim>\<open>Some(v)\<close>; \<^verbatim>\<open>None.toResult(e).toOption()\<close> is
  \<^verbatim>\<open>None\<close>; \<^verbatim>\<open>Ok(v).toOption().toResult(e2)\<close> is \<^verbatim>\<open>Ok(v)\<close>; and \<^verbatim>\<open>Err(e).toOption()\<close> is
  \<^verbatim>\<open>None\<close>, the error being dropped.
\<close>

theorem conversions_round_trip:
  "Result_toOption (Option_toResult stack (SomeImpl v) e :: ('a, 'e) Result) = SomeImpl v
   \<and> Result_toOption (Option_toResult stack (NoneImpl :: 'a Option) e :: ('a, 'e) Result)
        = NoneImpl
   \<and> Option_toResult stack2 (Result_toOption (OkImpl v :: ('a, 'e) Result)) e2
        = (OkImpl v :: ('a, 'f) Result)
   \<and> Result_toOption (ErrImpl e st :: ('a, 'e) Result) = NoneImpl
   \<and> Result_toOption (Err stack e :: ('a, 'e) Result) = NoneImpl"
  by (simp add: Err_def Let_def)

section \<open>Properties of the methods that take a function\<close>

text \<open>
  C8. For every function \<^verbatim>\<open>fn\<close> and every state of the program: \<^verbatim>\<open>None.map(fn)\<close> returns
  \<^verbatim>\<open>None\<close> and leaves the state as it was, so \<^verbatim>\<open>fn\<close> has not run; the same holds for
  \<^verbatim>\<open>Err.map\<close>, \<^verbatim>\<open>None.andThen\<close> and \<^verbatim>\<open>Err.andThen\<close>, which return the receiver.
  \<^verbatim>\<open>Some(v).orElse(otherFn)\<close> returns the receiver and leaves the state as it was, and
  \<^verbatim>\<open>None.orElse(otherFn)\<close> completes and changes the state exactly as one call of
  \<^verbatim>\<open>otherFn\<close> does.
\<close>

theorem mappers_and_fallbacks_lazy:
  "Option_map NoneImpl fn s = (Inr NoneImpl, s)
   \<and> Result_map (ErrImpl e st) rfn s = (Inr (ErrImpl e st), s)
   \<and> Option_andThen NoneImpl ofn s = (Inr NoneImpl, s)
   \<and> Result_andThen (ErrImpl e st) rofn s = (Inr (ErrImpl e st), s)
   \<and> Option_orElse (SomeImpl v) otherFn s = (Inr (SomeImpl v), s)
   \<and> Option_orElse NoneImpl otherFn s = otherFn s"
  by (simp add: returns_def)

text \<open>
  With the number of calls as the state and a function that counts its calls: no call
  on \<^verbatim>\<open>None.map\<close> and \<^verbatim>\<open>Some(v).orElse\<close>, one call on \<^verbatim>\<open>Some(v).map\<close> and
  \<^verbatim>\<open>None.orElse\<close>.
\<close>

lemma counted_calls:
  "snd (Option_map (NoneImpl :: int Option) (\<lambda>v n. (Inr (v + 1), Suc n)) 0) = 0
   \<and> snd (Option_map (SomeImpl (1::int)) (\<lambda>v n. (Inr (v + 1), Suc n)) 0) = 1
   \<and> snd (Option_orElse (SomeImpl (1::int)) (\<lambda>n. (Inr (SomeImpl 2), Suc n)) 0) = 0
   \<and> snd (Option_orElse (NoneImpl :: int Option) (\<lambda>n. (Inr (SomeImpl 2), Suc n)) 0) = 1"
  by (simp add: returns_def wrapped_def)

section \<open>Properties of the boundary to code that throws\<close>

lemma Result_wrapAsync_promise:
  "op s = (Inr p, s') \<Longrightarrow>
   Result_wrapAsync stack1 stack2 op s =
     ((case p of
         Pending \<Rightarrow> Pending
       | Fulfilled v \<Rightarrow> Fulfilled (OkImpl v)
       | Rejected e \<Rightarrow> Fulfilled (Err stack1 e)), s')"
  by (cases p) (simp_all add: Result_wrapAsync_def)

lemma Result_wrapAsync_thrown:
  "op s = (Inl e, s') \<Longrightarrow>
   Result_wrapAsync stack1 stack2 op s = (Fulfilled (Err stack2 e), s')"
  by (simp add: Result_wrapAsync_def Promise_resolve_def)

lemma Result_wrapAsync_not_rejected:
  "fst (Result_wrapAsync stack1 stack2 op s) \<noteq> Rejected reason"
proof (cases "op s")
  case (Pair c s')
  show ?thesis
  proof (cases c)
    case (Inl e)
    with Pair show ?thesis by (simp add: Result_wrapAsync_thrown)
  next
    case (Inr p)
    with Pair show ?thesis by (cases p) (simp_all add: Result_wrapAsync_promise)
  qed
qed

lemma Result_wrapAsync_pending:
  "fst (Result_wrapAsync stack1 stack2 op s) = Pending \<longleftrightarrow> fst (op s) = Inr Pending"
proof (cases "op s")
  case (Pair c s')
  show ?thesis
  proof (cases c)
    case (Inl e)
    with Pair show ?thesis by (simp add: Result_wrapAsync_thrown)
  next
    case (Inr p)
    with Pair show ?thesis by (cases p) (simp_all add: Result_wrapAsync_promise)
  qed
qed

text \<open>
  C4. \<^verbatim>\<open>Result.wrap(op)\<close> returns the \<^verbatim>\<open>Ok\<close> of the value \<^verbatim>\<open>op\<close> returns, and when \<^verbatim>\<open>op\<close>
  throws it returns an \<^verbatim>\<open>Err\<close> whose value is the very value thrown.
  \<^verbatim>\<open>Result.wrapAsync(op)\<close> gives a promise that is fulfilled with \<^verbatim>\<open>Ok(value)\<close> when the
  promise of \<^verbatim>\<open>op\<close> is fulfilled with \<^verbatim>\<open>value\<close>, and fulfilled with \<^verbatim>\<open>Err(reason)\<close> when
  that promise is rejected with \<^verbatim>\<open>reason\<close> or when \<^verbatim>\<open>op\<close> itself throws \<^verbatim>\<open>reason\<close>; the
  promise it gives is never rejected, and it stays pending only when \<^verbatim>\<open>op\<close> returned a
  promise that stays pending.
\<close>

theorem wrap_converts_every_failure:
  fixes op :: "('s, 'e, 'a) eff"
    and aop :: "('s, 'e, ('a, 'e) Promise) eff"
  shows
  "(op s = (Inr v, s') \<longrightarrow> Result_wrap stack op s = (OkImpl v, s'))
   \<and> (op s = (Inl e, s') \<longrightarrow> Result_wrap stack op s = (Err stack e, s')
        \<and> err_vals (fst (Result_wrap stack op s)) = [e])
   \<and> (aop s = (Inr (Fulfilled v), s') \<longrightarrow>
        Result_wrapAsync stack1 stack2 aop s
          = (Fulfilled (OkImpl v) :: (('a, 'e) Result, 'q) Promise, s'))
   \<and> (aop s = (Inr (Rejected e), s') \<longrightarrow>
        Result_wrapAsync stack1 stack2 aop s
          = (Fulfilled (Err stack1 e) :: (('a, 'e) Result, 'q) Promise, s'))
   \<and> (aop s = (Inl e, s') \<longrightarrow>
        Result_wrapAsync stack1 stack2 aop s
          = (Fulfilled (Err stack2 e) :: (('a, 'e) Result, 'q) Promise, s'))
   \<and> (\<forall>reason :: 'q. fst (Result_wrapAsync stack1 stack2 aop s) \<noteq> Rejected reason)
   \<and> (fst (Result_wrapAsync stack1 stack2 aop s) = (Pending :: (('a, 'e) Result, 'q) Promise)
        \<longleftrightarrow> fst (aop s) = Inr Pending)"
proof -
  have wrap_ok: "op s = (Inr v, s') \<longrightarrow> Result_wrap stack op s = (OkImpl v, s')"
    by (simp add: Result_wrap_def)
  have wrap_err: "op s = (Inl e, s') \<longrightarrow> Result_wrap stack op s = (Err stack e, s')
        \<and> err_vals (fst (Result_wrap stack op s)) = [e]"
    by (simp add: Result_wrap_def Err_def Let_def)
  have fulfilled: "aop s = (Inr (Fulfilled v), s') \<longrightarrow>
        Result_wrapAsync stack1 stack2 aop s
          = (Fulfilled (OkImpl v) :: (('a, 'e) Result, 'q) Promise, s')"
    by (simp add: Result_wrapAsync_promise)
  have rejected: "aop s = (Inr (Rejected e), s') \<longrightarrow>
        Result_wrapAsync stack1 stack2 aop s
          = (Fulfilled (Err stack1 e) :: (('a, 'e) Result, 'q) Promise, s')"
    by (simp add: Result_wrapAsync_promise)
  have thrown: "aop s = (Inl e, s') \<longrightarrow>
        Result_wrapAsync stack1 stack2 aop s
          = (Fulfilled (Err stack2 e) :: (('a, 'e) Result, 'q) Promise, s')"
    by (simp add: Result_wrapAsync_thrown)
  have never_rejects:
    "\<forall>reason :: 'q. fst (Result_wrapAsync stack1 stack2 aop s) \<noteq> Rejected reason"
    by (simp add: Result_wrapAsync_not_rejected)
  have settles:
    "fst (Result_wrapAsync stack1 stack2 aop s) = (Pending :: (('a, 'e) Result, 'q) Promise)
        \<longleftrightarrow> fst (aop s) = Inr Pending"
    by (rule Result_wrapAsync_pending)
  from wrap_ok wrap_err fulfilled rejected thrown never_rejects settles
  show ?thesis by blast
qed

theorem wrap_converts_every_failure_witness:
  "Result_wrap ''Error'' (\<lambda>n. (Inr (42::int), Suc n)) (0::nat)
      = (OkImpl 42 :: (int, string) Result, 1)
   \<and> Result_wrap ''Error'' (\<lambda>n. (Inl ''x'', Suc n)) (0::nat)
      = (ErrImpl ''x'' [] :: (int, string) Result, 1)
   \<and> Result_wrapAsync ''Error'' ''Error'' (\<lambda>n. (Inr (Fulfilled (42::int)), Suc n)) (0::nat)
      = (Fulfilled (OkImpl 42) :: ((int, string) Result, unit) Promise, 1)
   \<and> Result_wrapAsync ''Error'' ''Error'' (\<lambda>n. (Inr (Rejected ''y''), Suc n)) (0::nat)
      = (Fulfilled (ErrImpl ''y'' []) :: ((int, string) Result, unit) Promise, 1)
   \<and> Result_wrapAsync ''Error'' ''Error'' (\<lambda>n. (Inl ''z'', Suc n)) (0::nat)
      = (Fulfilled (ErrImpl ''z'' []) :: ((int, string) Result, unit) Promise, 1)"
  using
    wrap_converts_every_failure [where op = "\<lambda>n. (Inr (42::int), Suc n) :: (string + int) \<times> nat"
      and s = "0::nat" and v = "42::int" and s' = "1::nat" and stack = "''Error''"
      and aop = "\<lambda>n. (Inr (Fulfilled (42::int)), Suc n) :: (string + (int, string) Promise) \<times> nat"
      and ?stack1.0 = "''Error''" and ?stack2.0 = "''Error''" and e = "''x''", where ?'q = unit]
    wrap_converts_every_failure [where op = "\<lambda>n. (Inl ''x'', Suc n) :: (string + int) \<times> nat"
      and s = "0::nat" and v = "42::int" and s' = "1::nat" and stack = "''Error''"
      and aop = "\<lambda>n. (Inr (Rejected ''y''), Suc n) :: (string + (int, string) Promise) \<times> nat"
      and ?stack1.0 = "''Error''" and ?stack2.0 = "''Error''" and e = "''y''", where ?'q = unit]
    wrap_converts_every_failure [where op = "\<lambda>n. (Inl ''z'', Suc n) :: (string + int) \<times> nat"
      and s = "0::nat" and v = "42::int" and s' = "1::nat" and stack = "''Error''"
      and aop = "\<lambda>n. (Inl ''z'', Suc n) :: (string + (int, string) Promise) \<times> nat"
      and ?stack1.0 = "''Error''" and ?stack2.0 = "''Error''" and e = "''z''", where ?'q = unit]
  by (simp add: Err_def newline_def Result_wrap_def)

section \<open>Properties of iteration\<close>

text \<open>
  A loop over the iterator a member handed out collects what a loop over the payload's
  own iterator collects, with the same count of calls; a loop over the object literal
  collects nothing.
\<close>

lemma for_of_PayloadIterator:
  "for_of fuel (Iterator_next next_own) (PayloadIterator it) = for_of fuel next_own it"
proof (induction fuel arbitrary: it)
  case 0
  show ?case by simp
next
  case (Suc fuel)
  show ?case
  proof (cases "next_own it")
    case (Inl x)
    then show ?thesis by simp
  next
    case (Inr answer)
    obtain r it' where answer: "answer = (r, it')" by (cases answer)
    show ?thesis
    proof (cases r)
      case IteratorReturnResult
      with Inr answer show ?thesis by simp
    next
      case (IteratorYieldResult v)
      with Inr answer Suc.IH [of it'] show ?thesis by simp
    qed
  qed
qed

lemma for_of_js_next:
  "for_of (Suc (length elements)) (js_next :: jsval list \<Rightarrow> 'x + jsval IteratorResult \<times> jsval list)
     elements = Some (Inr elements)"
  by (induction elements) simp_all

text \<open>
  C9, as the source has it. Iterating over \<^verbatim>\<open>None\<close> or an \<^verbatim>\<open>Err\<close> delivers nothing.
  Iterating over a \<^verbatim>\<open>Some\<close> or an \<^verbatim>\<open>Ok\<close> delivers nothing when \<^verbatim>\<open>Object(val)\<close> has no
  \<^verbatim>\<open>Symbol.iterator\<close> key. When the key holds a method, the member calls it once and
  hands out the object the method returned, so the iteration delivers the payload's own
  elements (and an exception of the method passes through). When the key holds
  something that is not callable, the member throws the host's \<^verbatim>\<open>TypeError\<close>.
\<close>

theorem iteration_follows_symbol_iterator_key:
  "Option_iterator symbol_iterator NoneImpl s = (Inr EmptyIterator, s)
   \<and> Result_iterator symbol_iterator (ErrImpl e st) s = (Inr EmptyIterator, s)
   \<and> for_of (Suc fuel) (Iterator_next next_own) EmptyIterator = Some (Inr [])
   \<and> for_of fuel (Iterator_next next_own) (PayloadIterator it) = for_of fuel next_own it
   \<and> (symbol_iterator v = None \<longrightarrow>
        Option_iterator symbol_iterator (SomeImpl v) s = (Inr EmptyIterator, s)
        \<and> Result_iterator symbol_iterator (OkImpl v) s = (Inr EmptyIterator, s))
   \<and> (symbol_iterator v = Some (Method f) \<and> f s = (Inr it, s') \<longrightarrow>
        Option_iterator symbol_iterator (SomeImpl v) s = (Inr (PayloadIterator it), s')
        \<and> Result_iterator symbol_iterator (OkImpl v) s = (Inr (PayloadIterator it), s'))
   \<and> (symbol_iterator v = Some (Method f) \<and> f s = (Inl x, s') \<longrightarrow>
        Option_iterator symbol_iterator (SomeImpl v) s = (Inl (Thrown x), s')
        \<and> Result_iterator symbol_iterator (OkImpl v) s = (Inl (Thrown x), s'))
   \<and> (symbol_iterator v = Some NotCallable \<longrightarrow>
        Option_iterator symbol_iterator (SomeImpl v) s = (Inl TypeError, s)
        \<and> Result_iterator symbol_iterator (OkImpl v) s = (Inl TypeError, s))"
  by (simp add: returns_def call_member_def for_of_PayloadIterator)

theorem iteration_follows_symbol_iterator_key_witness:
  "js_symbol_iterator (JSArray [JSNumber 1, JSNumber 2, JSNumber 3])
      = Some (Method (returns [JSNumber 1, JSNumber 2, JSNumber 3])
          :: (unit, jsval, jsval list) member)
   \<and> Result_iterator js_symbol_iterator
        (OkImpl (JSArray [JSNumber 1, JSNumber 2, JSNumber 3]) :: (jsval, jsval) Result) ()
      = (Inr (PayloadIterator [JSNumber 1, JSNumber 2, JSNumber 3]) :: jsval thrown + _, ())
   \<and> for_of 4 (Iterator_next (js_next :: _ \<Rightarrow> jsval + _))
        (PayloadIterator [JSNumber 1, JSNumber 2, JSNumber 3])
      = Some (Inr [JSNumber 1, JSNumber 2, JSNumber 3])
   \<and> js_symbol_iterator (JSNumber 5) = (None :: (unit, jsval, jsval list) member option)
   \<and> Result_iterator (js_symbol_iterator :: _ \<Rightarrow> (unit, jsval, jsval list) member option)
        (OkImpl (JSNumber 5) :: (jsval, jsval) Result) ()
      = (Inr EmptyIterator, ())
   \<and> Result_iterator (js_symbol_iterator :: _ \<Rightarrow> (unit, jsval, jsval list) member option)
        (ErrImpl (JSString ''x'') ''at f'' :: (jsval, jsval) Result) ()
      = (Inr EmptyIterator, ())
   \<and> for_of 1 (Iterator_next (js_next :: _ \<Rightarrow> jsval + _)) EmptyIterator = Some (Inr [])"
  using
    iteration_follows_symbol_iterator_key
      [where symbol_iterator = "js_symbol_iterator :: _ \<Rightarrow> (unit, jsval, jsval list) member option"
         and v = "JSArray [JSNumber 1, JSNumber 2, JSNumber 3]"
         and f = "returns [JSNumber 1, JSNumber 2, JSNumber 3]"
         and it = "[JSNumber 1, JSNumber 2, JSNumber 3]" and s = "()" and s' = "()"
         and e = "JSString ''x''" and st = "''at f''" and fuel = 4
         and next_own = "js_next :: _ \<Rightarrow> jsval + _"]
    iteration_follows_symbol_iterator_key
      [where symbol_iterator = "js_symbol_iterator :: _ \<Rightarrow> (unit, jsval, jsval list) member option"
         and v = "JSNumber 5" and s = "()"
         and e = "JSString ''x''" and st = "''at f''" and fuel = 0
         and next_own = "js_next :: _ \<Rightarrow> jsval + _"]
  by (simp add: returns_def eval_nat_numeral)

text \<open>
  The payload \<^verbatim>\<open>{ [Symbol.iterator]: 5 }\<close> is not iterable, and iterating over the \<^verbatim>\<open>Some\<close>
  or the \<^verbatim>\<open>Ok\<close> that holds it does not deliver zero elements: the member throws.
\<close>

theorem iteration_of_uncallable_member_counterexample:
  "\<not> iterable (js_symbol_iterator (JSObject [(SymbolIterator, JSNumber 5)])
        :: (unit, jsval, jsval list) member option)
   \<and> Option_iterator (js_symbol_iterator :: _ \<Rightarrow> (unit, jsval, jsval list) member option)
        (SomeImpl (JSObject [(SymbolIterator, JSNumber 5)])) ()
      = (Inl TypeError, ())
   \<and> Result_iterator (js_symbol_iterator :: _ \<Rightarrow> (unit, jsval, jsval list) member option)
        (OkImpl (JSObject [(SymbolIterator, JSNumber 5)]) :: (jsval, jsval) Result) ()
      = (Inl TypeError, ())"
  by (simp add: call_member_def)

section \<open>Properties of method calls\<close>


























text \<open>
  The four accessors that are left out do raise on the other variant, and an exception
  of a function supplied by the caller passes through the method that called it.
\<close>

lemma unsafe_accessors_on_wrong_variant:
  "fst (Option_call toString symbol_iterator stack NoneImpl (O_expect msg) s)
      = Raises (Error msg None)
   \<and> fst (Option_call toString symbol_iterator stack NoneImpl O_unwrap s)
      = Raises (Error ''Tried to unwrap None'' None)
   \<and> fst (Result_call toString symbol_iterator stack (ErrImpl e st) (R_expect msg) s)
      = Raises (Error (msg @ '' - Error: '' @ toString e @ [newline] @ st) (Some e))
   \<and> fst (Result_call toString symbol_iterator stack (ErrImpl e st) R_unwrap s)
      = Raises (Error (''Tried to unwrap Error: '' @ toString e @ [newline] @ st) (Some e))
   \<and> fst (Result_call toString symbol_iterator stack (OkImpl v) (R_expectErr msg) s)
      = Raises (Error msg None)
   \<and> fst (Result_call toString symbol_iterator stack (OkImpl v) R_unwrapErr s)
      = Raises (Error (''Tried to unwrap Ok: '' @ toString v) (Some v))"
  by (simp add: throwing_def)

lemma caller_exception_passes:
  "fst (Option_call toString symbol_iterator stack (SomeImpl v) (O_map (\<lambda>v s. (Inl x, s))) s)
      = Propagates x
   \<and> fst (Option_call toString symbol_iterator stack NoneImpl (O_map (\<lambda>v s. (Inl x, s))) s)
      = Returns (OptionValue NoneImpl)"
  by (simp add: calling_def returning_def)

text \<open>
  The tables of the classes agree with the functions that give each method by itself:
  a call completes as the method does.
\<close>

lemma Option_call_agrees:
  "Option_call toString symbol_iterator stack recv (O_expect msg) s =
     (case Option_expect recv msg of
        Inl error \<Rightarrow> (Raises error, s)
      | Inr v \<Rightarrow> (Returns (Value v), s))"
  "Option_call toString symbol_iterator stack recv O_unwrap s =
     (case Option_unwrap recv of
        Inl error \<Rightarrow> (Raises error, s)
      | Inr v \<Rightarrow> (Returns (Value v), s))"
  "Option_call toString symbol_iterator stack recv (O_unwrapOr val) s =
     (Returns (Value (Option_unwrapOr recv val)), s)"
  "Option_call toString symbol_iterator stack recv (O_andThen chained) =
     calling OptionValue (Option_andThen recv chained)"
  "Option_call toString symbol_iterator stack recv (O_map mapper) =
     calling OptionValue (Option_map recv mapper)"
  "Option_call toString symbol_iterator stack recv (O_mapOr default_val mapper) =
     calling Value (Option_mapOr recv default_val mapper)"
  "Option_call toString symbol_iterator stack recv (O_mapOrElse default_fn mapper) =
     calling Value (Option_mapOrElse recv default_fn mapper)"
  "Option_call toString symbol_iterator stack recv (O_or other) s =
     (Returns (OptionValue (Option_or recv other)), s)"
  "Option_call toString symbol_iterator stack recv (O_orElse other_fn) =
     calling OptionValue (Option_orElse recv other_fn)"
  "Option_call toString symbol_iterator stack recv (O_toResult error) s =
     (Returns (ResultValue (Option_toResult stack recv error)), s)"
  "Option_call toString symbol_iterator stack recv O_toString s =
     (Returns (Text (Option_toString toString recv)), s)"
  "Option_call toString symbol_iterator stack recv O_iterator s =
     (case Option_iterator symbol_iterator recv s of
        (Inl TypeError, s') \<Rightarrow> (RaisesTypeError, s')
      | (Inl (Thrown x), s') \<Rightarrow> (Propagates x, s')
      | (Inr it, s') \<Rightarrow> (Returns (IteratorObject it), s'))"
  by (cases recv;
      simp add: returning_def throwing_def calling_def returns_def wrapped_def call_member_def
        fun_eq_iff split: prod.splits sum.splits option.splits member.splits)+

lemma Result_call_agrees:
  "Result_call toString symbol_iterator stack recv (R_expect msg) s =
     (case Result_expect toString recv msg of
        Inl error \<Rightarrow> (Raises error, s)
      | Inr v \<Rightarrow> (Returns (Value v), s))"
  "Result_call toString symbol_iterator stack recv (R_expectErr msg) s =
     (case Result_expectErr recv msg of
        Inl error \<Rightarrow> (Raises error, s)
      | Inr v \<Rightarrow> (Returns (Value v), s))"
  "Result_call toString symbol_iterator stack recv R_unwrap s =
     (case Result_unwrap toString recv of
        Inl error \<Rightarrow> (Raises error, s)
      | Inr v \<Rightarrow> (Returns (Value v), s))"
  "Result_call toString symbol_iterator stack recv R_unwrapErr s =
     (case Result_unwrapErr toString recv of
        Inl error \<Rightarrow> (Raises error, s)
      | Inr v \<Rightarrow> (Returns (Value v), s))"
  "Result_call toString symbol_iterator stack recv (R_else val) s =
     (Returns (Value (Result_else recv val)), s)"
  "Result_call toString symbol_iterator stack recv (R_unwrapOr val) s =
     (Returns (Value (Result_unwrapOr recv val)), s)"
  "Result_call toString symbol_iterator stack recv (R_andThen chained) =
     calling ResultValue (Result_andThen recv chained)"
  "Result_call toString symbol_iterator stack recv (R_map mapper) =
     calling ResultValue (Result_map recv mapper)"
  "Result_call toString symbol_iterator stack recv (R_mapErr mapper) =
     calling ResultValue (Result_mapErr stack recv mapper)"
  "Result_call toString symbol_iterator stack recv (R_mapOr default_val mapper) =
     calling Value (Result_mapOr recv default_val mapper)"
  "Result_call toString symbol_iterator stack recv (R_mapOrElse default_fn mapper) =
     calling Value (Result_mapOrElse recv default_fn mapper)"
  "Result_call toString symbol_iterator stack recv (R_or other) s =
     (Returns (ResultValue (Result_or recv other)), s)"
  "Result_call toString symbol_iterator stack recv (R_orElse other_fn) =
     calling ResultValue (Result_orElse recv other_fn)"
  "Result_call toString symbol_iterator stack recv R_toOption s =
     (Returns (OptionValue (Result_toOption recv)), s)"
  "Result_call toString symbol_iterator stack recv R_toString s =
     (Returns (Text (Result_toString toString toString recv)), s)"
  "Result_call toString symbol_iterator stack recv R_iterator s =
     (case Result_iterator symbol_iterator recv s of
        (Inl TypeError, s') \<Rightarrow> (RaisesTypeError, s')
      | (Inl (Thrown x), s') \<Rightarrow> (Propagates x, s')
      | (Inr it, s') \<Rightarrow> (Returns (IteratorObject it), s'))"
  by (cases recv;
      simp add: returning_def throwing_def calling_def returns_def wrapped_def call_member_def
        fun_eq_iff split: prod.splits sum.splits option.splits member.splits)+

end
